theory Spec2Isabelle
  imports Main
begin

section \<open>The state manager of the printer adapter\<close>

text \<open>
  This theory embeds \<^verbatim>\<open>prusa/link/printer_adapter/informers/state_manager.py\<close>:
  the class \<^verbatim>\<open>StateChange\<close>, the decorator \<^verbatim>\<open>state_influencer\<close> and the
  class \<^verbatim>\<open>StateManager\<close>. Attributes of the manager become fields of a record,
  every method becomes a function from the manager before the call to the manager
  after it, and the three blinker signals become a list of sent signals, each
  paired with the sender as it is at the moment of sending.
\<close>

subsection \<open>Enumerations of the SDK\<close>

text \<open>
  Modelled from the spec: the enumerations \<^verbatim>\<open>State\<close> and \<^verbatim>\<open>Source\<close> are imported
  from \<^verbatim>\<open>prusa.connect.printer.const\<close>, which is not part of the source tree. The
  members are the ones the spec lists and the state manager mentions.
\<close>

datatype State = READY | BUSY | PRINTING | PAUSED | FINISHED | ATTENTION | ERROR

datatype Source = CONNECT | USER | MARLIN | HW | WUI | SERIAL

subsection \<open>\<^verbatim>\<open>StateChange\<close>\<close>

record StateChange =
  command_id :: "int option"
  to_states :: "State \<rightharpoonup> Source option"
  from_states :: "State \<rightharpoonup> Source option"
  default_source :: "Source option"

text \<open>The constructor: a dictionary that is not given is the empty dictionary.\<close>

definition StateChange_init ::
  "int option \<Rightarrow> (State \<rightharpoonup> Source option) option \<Rightarrow>
   (State \<rightharpoonup> Source option) option \<Rightarrow> Source option \<Rightarrow> StateChange" where
  "StateChange_init cid to_arg from_arg dflt =
     \<lparr>command_id = cid,
      to_states = (case to_arg of None \<Rightarrow> Map.empty | Some m \<Rightarrow> m),
      from_states = (case from_arg of None \<Rightarrow> Map.empty | Some m \<Rightarrow> m),
      default_source = dflt\<rparr>"

subsection \<open>The manager and its signals\<close>

text \<open>
  \<^verbatim>\<open>self.data\<close> holds the three layers and the reported history,
  \<^verbatim>\<open>self.expected_state_change\<close> is the pending expectation, and
  \<^verbatim>\<open>self.model.file_printer.printing\<close> is read by the telemetry handler.
\<close>

record StateManager =
  base_state :: State
  printing_state :: "State option"
  override_state :: "State option"
  last_state :: State
  current_state :: State
  expected_state_change :: "StateChange option"
  file_printer_printing :: bool

datatype signal =
    pre_state_change_signal "int option"
  | state_changed_signal State State "int option" "Source option"
  | post_state_change_signal

text \<open>
  \<^verbatim>\<open>signal.send(self, ...)\<close> hands the manager itself to the subscribers, so a sent
  signal is recorded together with the manager as it is when the signal is sent.
\<close>

type_synonym sent = "StateManager \<times> signal"

definition get_state :: "StateManager \<Rightarrow> State" where
  "get_state s =
     (if override_state s \<noteq> None then the (override_state s)
      else if printing_state s \<noteq> None then the (printing_state s)
      else base_state s)"

definition StateManager_init :: "bool \<Rightarrow> StateManager" where
  "StateManager_init fp =
     (let s0 = \<lparr>base_state = READY, printing_state = None, override_state = None,
                last_state = READY, current_state = READY,
                expected_state_change = None, file_printer_printing = fp\<rparr>;
          s1 = s0\<lparr>last_state := get_state s0\<rparr>
      in s1\<lparr>current_state := get_state s1\<rparr>)"

definition expect_change :: "StateManager \<Rightarrow> StateChange \<Rightarrow> StateManager" where
  "expect_change s change = s\<lparr>expected_state_change := Some change\<rparr>"

definition stop_expecting_change :: "StateManager \<Rightarrow> StateManager" where
  "stop_expecting_change s = s\<lparr>expected_state_change := None\<rparr>"

definition is_expected :: "StateManager \<Rightarrow> bool" where
  "is_expected s =
     (case expected_state_change s of
        Some state_change \<Rightarrow>
          (let expected_to = (current_state s \<in> dom (to_states state_change));
               expected_from = (last_state s \<in> dom (from_states state_change));
               has_default_source = (default_source state_change \<noteq> None)
           in expected_to \<or> expected_from \<or> has_default_source)
      | None \<Rightarrow> False)"

text \<open>
  \<^verbatim>\<open>next(item for item in [source_from, source_to] if item is not None)\<close> is the
  head of the filtered list; \<^verbatim>\<open>StopIteration\<close> is the empty list.
\<close>

definition get_expected_source :: "StateManager \<Rightarrow> Source option" where
  "get_expected_source s =
     (case expected_state_change s of
        None \<Rightarrow> None
      | Some state_change \<Rightarrow>
          (let source_from =
                 (if last_state s \<in> dom (from_states state_change)
                  then the (from_states state_change (last_state s)) else None);
               source_to =
                 (if current_state s \<in> dom (to_states state_change)
                  then the (to_states state_change (current_state s)) else None);
               source =
                 (if source_from \<noteq> None \<and> source_to \<noteq> None \<and> source_to \<noteq> source_from
                  then source_from
                  else (case filter (\<lambda>item. item \<noteq> None) [source_from, source_to] of
                          item # _ \<Rightarrow> item
                        | [] \<Rightarrow> None))
           in if source = None then default_source state_change else source))"

definition state_may_have_changed :: "StateManager \<Rightarrow> StateManager \<times> sent list" where
  "state_may_have_changed s =
     (if get_state s \<noteq> current_state s then
        (let s1 = s\<lparr>last_state := current_state s\<rparr>;
             s2 = s1\<lparr>current_state := get_state s1\<rparr>;
             cid = (if is_expected s2 then
                      (case expected_state_change s2 of
                         Some state_change \<Rightarrow>
                           (if command_id state_change \<noteq> None
                            then command_id state_change else None)
                       | None \<Rightarrow> None)
                    else None);
             source = (if is_expected s2 then get_expected_source s2 else None);
             s3 = s2\<lparr>expected_state_change := None\<rparr>
         in (s3, [(s3, pre_state_change_signal cid),
                  (s3, state_changed_signal (last_state s3) (current_state s3) cid source),
                  (s3, post_state_change_signal)]))
      else (s, []))"

subsection \<open>The decorator \<^verbatim>\<open>state_influencer\<close>\<close>

definition state_influencer ::
  "StateChange option \<Rightarrow> (StateManager \<Rightarrow> StateManager) \<Rightarrow>
   StateManager \<Rightarrow> StateManager \<times> sent list" where
  "state_influencer state_change func s =
     (let has_set_expected_change =
            (expected_state_change s = None \<and> state_change \<noteq> None);
          s1 = (if has_set_expected_change then expect_change s (the state_change) else s);
          s2 = func s1;
          (s3, sigs) = state_may_have_changed s2
      in (if has_set_expected_change then stop_expecting_change s3 else s3, sigs))"

subsection \<open>State changing methods\<close>

definition printing_change :: StateChange where
  "printing_change = StateChange_init None (Some [PRINTING \<mapsto> Some USER]) None None"

definition printing_body :: "StateManager \<Rightarrow> StateManager" where
  "printing_body s =
     (if printing_state s = None then s\<lparr>printing_state := Some PRINTING\<rparr> else s)"

definition printing :: "StateManager \<Rightarrow> StateManager \<times> sent list" where
  "printing = state_influencer (Some printing_change) printing_body"

definition not_printing_change :: StateChange where
  "not_printing_change =
     StateChange_init None None
       (Some [PRINTING \<mapsto> Some MARLIN, PAUSED \<mapsto> Some MARLIN, FINISHED \<mapsto> Some MARLIN])
       None"

definition not_printing_body :: "StateManager \<Rightarrow> StateManager" where
  "not_printing_body s =
     (if printing_state s \<noteq> None then s\<lparr>printing_state := None\<rparr> else s)"

definition not_printing :: "StateManager \<Rightarrow> StateManager \<times> sent list" where
  "not_printing = state_influencer (Some not_printing_change) not_printing_body"

definition finished_change :: StateChange where
  "finished_change = StateChange_init None (Some [FINISHED \<mapsto> Some MARLIN]) None None"

definition finished_body :: "StateManager \<Rightarrow> StateManager" where
  "finished_body s =
     (if printing_state s = Some PRINTING then s\<lparr>printing_state := Some FINISHED\<rparr> else s)"

definition finished :: "StateManager \<Rightarrow> StateManager \<times> sent list" where
  "finished = state_influencer (Some finished_change) finished_body"

definition busy_change :: StateChange where
  "busy_change = StateChange_init None (Some [BUSY \<mapsto> Some MARLIN]) None None"

definition busy_body :: "StateManager \<Rightarrow> StateManager" where
  "busy_body s = (if base_state s = READY then s\<lparr>base_state := BUSY\<rparr> else s)"

definition busy :: "StateManager \<Rightarrow> StateManager \<times> sent list" where
  "busy = state_influencer (Some busy_change) busy_body"

definition paused_change :: StateChange where
  "paused_change = StateChange_init None (Some [PAUSED \<mapsto> Some USER]) None None"

definition paused_body :: "StateManager \<Rightarrow> StateManager" where
  "paused_body s =
     (if printing_state s = Some PRINTING then s\<lparr>printing_state := Some PAUSED\<rparr> else s)"

definition paused :: "StateManager \<Rightarrow> StateManager \<times> sent list" where
  "paused = state_influencer (Some paused_change) paused_body"

definition resumed_change :: StateChange where
  "resumed_change = StateChange_init None (Some [PRINTING \<mapsto> Some USER]) None None"

definition resumed_body :: "StateManager \<Rightarrow> StateManager" where
  "resumed_body s =
     (if printing_state s = Some PAUSED then s\<lparr>printing_state := Some PRINTING\<rparr> else s)"

definition resumed :: "StateManager \<Rightarrow> StateManager \<times> sent list" where
  "resumed = state_influencer (Some resumed_change) resumed_body"

definition ok_change :: StateChange where
  "ok_change =
     StateChange_init None (Some [READY \<mapsto> Some MARLIN])
       (Some [ATTENTION \<mapsto> Some USER, ERROR \<mapsto> Some USER, BUSY \<mapsto> Some HW])
       None"

definition ok_body :: "StateManager \<Rightarrow> StateManager" where
  "ok_body s =
     (let s1 = (if base_state s = BUSY then s\<lparr>base_state := READY\<rparr> else s);
          s2 = (if printing_state s1 = Some FINISHED then s1\<lparr>printing_state := None\<rparr> else s1)
      in if override_state s2 \<noteq> None then s2\<lparr>override_state := None\<rparr> else s2)"

definition ok :: "StateManager \<Rightarrow> StateManager \<times> sent list" where
  "ok = state_influencer (Some ok_change) ok_body"

definition attention_change :: StateChange where
  "attention_change = StateChange_init None (Some [ATTENTION \<mapsto> Some USER]) None None"

definition attention_body :: "StateManager \<Rightarrow> StateManager" where
  "attention_body s = s\<lparr>override_state := Some ATTENTION\<rparr>"

definition attention :: "StateManager \<Rightarrow> StateManager \<times> sent list" where
  "attention = state_influencer (Some attention_change) attention_body"

definition error_change :: StateChange where
  "error_change = StateChange_init None (Some [ERROR \<mapsto> Some WUI]) None None"

definition error_body :: "StateManager \<Rightarrow> StateManager" where
  "error_body s = s\<lparr>override_state := Some ERROR\<rparr>"

definition error :: "StateManager \<Rightarrow> StateManager \<times> sent list" where
  "error = state_influencer (Some error_change) error_body"

definition serial_error_change :: StateChange where
  "serial_error_change = StateChange_init None (Some [ERROR \<mapsto> Some SERIAL]) None None"

definition serial_error_body :: "StateManager \<Rightarrow> StateManager" where
  "serial_error_body s = s\<lparr>override_state := Some ERROR\<rparr>"

definition serial_error :: "StateManager \<Rightarrow> StateManager \<times> sent list" where
  "serial_error = state_influencer (Some serial_error_change) serial_error_body"

definition serial_error_resolved_change :: StateChange where
  "serial_error_resolved_change =
     StateChange_init None (Some [READY \<mapsto> Some SERIAL]) None None"

definition serial_error_resolved_body :: "StateManager \<Rightarrow> StateManager" where
  "serial_error_resolved_body s =
     (if override_state s = Some ERROR then s\<lparr>override_state := None\<rparr> else s)"

definition serial_error_resolved :: "StateManager \<Rightarrow> StateManager \<times> sent list" where
  "serial_error_resolved =
     state_influencer (Some serial_error_resolved_change) serial_error_resolved_body"

text \<open>
  The decorated methods, each as the pair of its default expectation and its body.
\<close>

definition influencers :: "(StateChange \<times> (StateManager \<Rightarrow> StateManager)) list" where
  "influencers =
     [(printing_change, printing_body),
      (not_printing_change, not_printing_body),
      (finished_change, finished_body),
      (busy_change, busy_body),
      (paused_change, paused_body),
      (resumed_change, resumed_body),
      (ok_change, ok_body),
      (attention_change, attention_body),
      (error_change, error_body),
      (serial_error_change, serial_error_body),
      (serial_error_resolved_change, serial_error_resolved_body)]"

definition state_changing_methods :: "(StateManager \<Rightarrow> StateManager \<times> sent list) list" where
  "state_changing_methods =
     [printing, not_printing, finished, busy, paused, resumed, ok, attention, error,
      serial_error, serial_error_resolved]"

subsection \<open>Printer output handlers\<close>

text \<open>
  \<^verbatim>\<open>sd_printing_handler\<close> receives the first group of the match: the text of
  the "not printing" alternative, or \<^verbatim>\<open>None\<close> when the line reports a print time.
\<close>

definition sd_printing_handler ::
  "string option \<Rightarrow> StateManager \<Rightarrow> StateManager \<times> sent list" where
  "sd_printing_handler group0 s =
     (let printing_flag = (group0 = None \<or> file_printer_printing s);
          is_paused = (printing_state s = Some PAUSED)
      in if \<not> printing_flag \<and> \<not> is_paused then not_printing s else printing s)"

subsection \<open>Auxiliary notions for the statements\<close>

text \<open>
  A method body that writes the three layers only: it leaves the reported history,
  the pending expectation and the file printer's flag as they are.
\<close>

definition layer_body :: "(StateManager \<Rightarrow> StateManager) \<Rightarrow> bool" where
  "layer_body func \<longleftrightarrow>
     (\<forall>s. last_state (func s) = last_state s \<and> current_state (func s) = current_state s \<and>
          expected_state_change (func s) = expected_state_change s \<and>
          file_printer_printing (func s) = file_printer_printing s)"

text \<open>
  Two expectations as a caller would push them before a command: the one
  \<^verbatim>\<open>file_printer_started_printing\<close> pushes, here with command id 42, and a
  second one with another source and command id 7.
\<close>

definition connect_print_change :: StateChange where
  "connect_print_change =
     StateChange_init (Some 42) (Some [PRINTING \<mapsto> Some CONNECT]) None None"

definition serial_print_change :: StateChange where
  "serial_print_change =
     StateChange_init (Some 7) (Some [PRINTING \<mapsto> Some SERIAL]) None None"

text \<open>
  A method body whose effect does not depend on the reported history or on the
  pending expectation: it commutes with writing any of them.
\<close>

definition history_independent :: "(StateManager \<Rightarrow> StateManager) \<Rightarrow> bool" where
  "history_independent func \<longleftrightarrow>
     (\<forall>s. (\<forall>x. func (s\<lparr>last_state := x\<rparr>) = (func s)\<lparr>last_state := x\<rparr>) \<and>
          (\<forall>y. func (s\<lparr>current_state := y\<rparr>) = (func s)\<lparr>current_state := y\<rparr>) \<and>
          (\<forall>e. func (s\<lparr>expected_state_change := e\<rparr>) =
                 (func s)\<lparr>expected_state_change := e\<rparr>))"

text \<open>
  An expectation that carries a default source only, one whose target state is
  mapped to \<^verbatim>\<open>None\<close>, and a manager right after a detected change from \<open>l\<close> to
  \<open>c\<close> with the expectation \<open>d\<close> pending.
\<close>

definition wui_default_change :: StateChange where
  "wui_default_change = StateChange_init None None None (Some WUI)"

definition silent_change :: StateChange where
  "silent_change = StateChange_init (Some 42) (Some [BUSY \<mapsto> None]) None None"

definition pending :: "State \<Rightarrow> State \<Rightarrow> StateChange \<Rightarrow> StateManager" where
  "pending l c d =
     (StateManager_init False)\<lparr>last_state := l, current_state := c,
        expected_state_change := Some d\<rparr>"

text \<open>
  A manager in which a print was started while the caller's expectation is pending,
  before the detect-and-notify cycle has run; and the manager after \<^verbatim>\<open>printing()\<close>
  and \<^verbatim>\<open>paused()\<close> from the initial one.
\<close>

definition printing_announced :: StateManager where
  "printing_announced =
     (StateManager_init False)\<lparr>printing_state := Some PRINTING,
        expected_state_change := Some connect_print_change\<rparr>"

definition paused_manager :: StateManager where
  "paused_manager = fst (paused (fst (printing (StateManager_init False))))"

section \<open>Basic facts\<close>

lemmas body_defs = printing_body_def not_printing_body_def finished_body_def busy_body_def
  paused_body_def resumed_body_def ok_body_def attention_body_def error_body_def
  serial_error_body_def serial_error_resolved_body_def

lemmas method_defs = printing_def not_printing_def finished_def busy_def paused_def resumed_def
  ok_def attention_def error_def serial_error_def serial_error_resolved_def

lemmas change_defs = StateChange_init_def printing_change_def not_printing_change_def
  finished_change_def busy_change_def paused_change_def resumed_change_def ok_change_def
  attention_change_def error_change_def serial_error_change_def
  serial_error_resolved_change_def

lemmas run_defs = state_influencer_def state_may_have_changed_def expect_change_def
  stop_expecting_change_def is_expected_def get_expected_source_def get_state_def
  StateManager_init_def Let_def

lemma state_may_have_changed_same:
  "get_state s = current_state s \<Longrightarrow> state_may_have_changed s = (s, [])"
  by (simp add: state_may_have_changed_def)

lemma fst_state_may_have_changed:
  "fst (state_may_have_changed s) =
     (if get_state s \<noteq> current_state s
      then s\<lparr>last_state := current_state s, current_state := get_state s,
             expected_state_change := None\<rparr>
      else s)"
  by (simp add: state_may_have_changed_def Let_def get_state_def)

lemma snd_state_may_have_changed_Nil:
  "snd (state_may_have_changed s) = [] \<longleftrightarrow> get_state s = current_state s"
  by (simp add: state_may_have_changed_def Let_def)

lemma layer_body_influencers: "(d, func) \<in> set influencers \<Longrightarrow> layer_body func"
  by (auto simp: influencers_def layer_body_def body_defs Let_def split: if_splits)

lemma state_changing_methods_influencers:
  "state_changing_methods = map (\<lambda>(d, func). state_influencer (Some d) func) influencers"
  by (simp add: state_changing_methods_def influencers_def method_defs)

lemma influencer_ledger:
  assumes "layer_body func"
  shows "expected_state_change (fst (state_influencer (Some d) func s)) =
     (if expected_state_change s = None \<or> snd (state_influencer (Some d) func s) \<noteq> []
      then None else expected_state_change s)"
  using assms
  by (simp add: state_influencer_def Let_def split_def fst_state_may_have_changed
      snd_state_may_have_changed_Nil stop_expecting_change_def expect_change_def layer_body_def)

lemma history_independent_influencers:
  "(d, func) \<in> set influencers \<Longrightarrow> history_independent func"
  by (auto simp: influencers_def history_independent_def body_defs Let_def)

lemma idempotent_influencers:
  "(d, func) \<in> set influencers \<Longrightarrow> func (func s) = func s"
  by (auto simp: influencers_def body_defs Let_def)

lemma get_state_history:
  "get_state (s\<lparr>last_state := x\<rparr>) = get_state s"
  "get_state (s\<lparr>current_state := y\<rparr>) = get_state s"
  "get_state (s\<lparr>expected_state_change := e\<rparr>) = get_state s"
  by (simp_all add: get_state_def)

lemma ledger_update_same:
  "expected_state_change t = e \<Longrightarrow> t\<lparr>expected_state_change := e\<rparr> = t"
  by (cases t) simp

lemma pending_fields:
  "expected_state_change (pending l c d) = Some d"
  "last_state (pending l c d) = l"
  "current_state (pending l c d) = c"
  by (simp_all add: pending_def)

lemma influencer_unchanged:
  assumes lb: "layer_body func" and hi: "history_independent func"
    and same: "get_state (func s) = current_state s"
  shows "state_influencer (Some d) func s = (func s, [])"
proof (cases "expected_state_change s")
  case None
  have f: "func (s\<lparr>expected_state_change := Some d\<rparr>) =
           (func s)\<lparr>expected_state_change := Some d\<rparr>"
    using hi by (simp add: history_independent_def)
  have c: "current_state (func s) = current_state s"
    and e: "expected_state_change (func s) = None"
    using lb None by (simp_all add: layer_body_def)
  have "state_may_have_changed ((func s)\<lparr>expected_state_change := Some d\<rparr>) =
        ((func s)\<lparr>expected_state_change := Some d\<rparr>, [])"
    by (rule state_may_have_changed_same) (simp add: get_state_history same c)
  then show ?thesis
    using None f e
    by (simp add: state_influencer_def expect_change_def stop_expecting_change_def
        ledger_update_same)
next
  case (Some d0)
  have c: "current_state (func s) = current_state s"
    using lb by (simp add: layer_body_def)
  have "state_may_have_changed (func s) = (func s, [])"
    by (rule state_may_have_changed_same) (simp add: same c)
  then show ?thesis
    using Some by (simp add: state_influencer_def)
qed

lemma influencer_changed:
  assumes lb: "layer_body func" and hi: "history_independent func"
    and diff: "get_state (func s) \<noteq> current_state s"
  shows "fst (state_influencer (Some d) func s) =
     (func s)\<lparr>last_state := current_state s, current_state := get_state (func s),
              expected_state_change := None\<rparr>"
proof -
  have c: "current_state (func s) = current_state s"
    using lb by (simp add: layer_body_def)
  show ?thesis
  proof (cases "expected_state_change s")
    case None
    have f: "func (s\<lparr>expected_state_change := Some d\<rparr>) =
             (func s)\<lparr>expected_state_change := Some d\<rparr>"
      using hi by (simp add: history_independent_def)
    show ?thesis
      using None diff c
      by (simp add: state_influencer_def expect_change_def stop_expecting_change_def f
          split_def fst_state_may_have_changed get_state_history)
  next
    case (Some d0)
    then show ?thesis
      using diff c
      by (simp add: state_influencer_def split_def fst_state_may_have_changed)
  qed
qed

lemma influencer_twice:
  assumes lb: "layer_body func" and hi: "history_independent func"
    and idem: "\<forall>t. func (func t) = func t"
  shows "state_influencer (Some d) func (fst (state_influencer (Some d) func s)) =
         (fst (state_influencer (Some d) func s), [])"
proof -
  let ?s' = "fst (state_influencer (Some d) func s)"
  have c: "current_state (func s) = current_state s"
    using lb by (simp add: layer_body_def)
  have stable: "func ?s' = ?s' \<and> get_state ?s' = current_state ?s'"
  proof (cases "get_state (func s) = current_state s")
    case True
    then have "?s' = func s"
      using influencer_unchanged [OF lb hi True, of d] by simp
    then show ?thesis using idem True c by simp
  next
    case False
    have s': "?s' = (func s)\<lparr>last_state := current_state s,
                current_state := get_state (func s), expected_state_change := None\<rparr>"
      using influencer_changed [OF lb hi False] .
    have "func ((func s)\<lparr>last_state := current_state s,
                current_state := get_state (func s), expected_state_change := None\<rparr>) =
          (func (func s))\<lparr>last_state := current_state s,
                current_state := get_state (func s), expected_state_change := None\<rparr>"
      using hi by (simp add: history_independent_def)
    then show ?thesis
      unfolding s' by (simp add: idem get_state_history)
  qed
  then have "get_state (func ?s') = current_state ?s'" by simp
  from influencer_unchanged [OF lb hi this, of d] stable show ?thesis by simp
qed

lemma influencer_layers:
  assumes lb: "layer_body func" and hi: "history_independent func"
  shows "base_state (fst (state_influencer (Some d) func s)) = base_state (func s)"
    and "printing_state (fst (state_influencer (Some d) func s)) = printing_state (func s)"
    and "override_state (fst (state_influencer (Some d) func s)) = override_state (func s)"
proof -
  have "fst (state_influencer (Some d) func s) = func s \<or>
        fst (state_influencer (Some d) func s) =
          (func s)\<lparr>last_state := current_state s, current_state := get_state (func s),
                   expected_state_change := None\<rparr>"
    using influencer_unchanged [OF lb hi, of s d] influencer_changed [OF lb hi, of s d]
    by (cases "get_state (func s) = current_state s") simp_all
  then show "base_state (fst (state_influencer (Some d) func s)) = base_state (func s)"
    and "printing_state (fst (state_influencer (Some d) func s)) = printing_state (func s)"
    and "override_state (fst (state_influencer (Some d) func s)) = override_state (func s)"
    by auto
qed

lemma get_state_layers:
  "base_state t = base_state s \<Longrightarrow> printing_state t = printing_state s \<Longrightarrow>
   override_state t = override_state s \<Longrightarrow> get_state t = get_state s"
  by (simp add: get_state_def)

section \<open>The expectation ledger across a state changing method\<close>

text \<open>
  C1, as stated: after every state changing method the pending expectation is gone.
  This fails for an expectation pushed by a caller when the method causes no
  reportable change: from the initial manager, with the caller's expectation
  pending, \<^verbatim>\<open>ok()\<close> sends nothing and the expectation is still pending afterwards.
\<close>

theorem caller_expectation_survives_counterexample:
  "expected_state_change
     (fst (ok (expect_change (StateManager_init False) connect_print_change))) =
   Some connect_print_change \<and>
   snd (ok (expect_change (StateManager_init False) connect_print_change)) = []"
  by (simp add: ok_def ok_body_def run_defs)

text \<open>
  C1, amended: after a state changing method returns, the pending expectation is
  gone when none was pending at the call (the decorator pushed the default and
  removed it again) or when the method sent the signals of a reportable change;
  otherwise the expectation pushed by the caller is still pending, unchanged.
\<close>

theorem ledger_after_method:
  assumes "m \<in> set state_changing_methods"
  shows "expected_state_change (fst (m s)) =
     (if expected_state_change s = None \<or> snd (m s) \<noteq> [] then None
      else expected_state_change s)"
proof -
  from assms obtain d func where df: "(d, func) \<in> set influencers"
    and m: "m = state_influencer (Some d) func"
    unfolding state_changing_methods_influencers by auto
  from df have "layer_body func" by (rule layer_body_influencers)
  then show ?thesis unfolding m by (rule influencer_ledger)
qed

theorem ledger_after_method_witness:
  "busy \<in> set state_changing_methods \<and>
   expected_state_change (fst (busy (StateManager_init False))) = None \<and>
   expected_state_change
     (fst (busy (expect_change (StateManager_init False) connect_print_change))) = None \<and>
   expected_state_change
     (fst (ok (expect_change (StateManager_init False) connect_print_change))) =
   Some connect_print_change"
proof -
  have b: "busy \<in> set state_changing_methods" and o: "ok \<in> set state_changing_methods"
    by (simp_all add: state_changing_methods_def)
  have "snd (busy (expect_change (StateManager_init False) connect_print_change)) \<noteq> []"
    by (simp add: busy_def busy_body_def run_defs)
  moreover have "snd (ok (expect_change (StateManager_init False) connect_print_change)) = []"
    by (simp add: ok_def ok_body_def run_defs)
  moreover have "expected_state_change (StateManager_init False) = None"
    by (simp add: run_defs)
  moreover have
    "expected_state_change (expect_change (StateManager_init False) connect_print_change)
     = Some connect_print_change"
    by (simp add: run_defs)
  ultimately show ?thesis
    using b ledger_after_method [OF b, of "StateManager_init False"]
      ledger_after_method [OF b, of "expect_change (StateManager_init False) connect_print_change"]
      ledger_after_method [OF o, of "expect_change (StateManager_init False) connect_print_change"]
    by simp
qed

section \<open>Pushing while an expectation is pending\<close>

text \<open>
  C2, as stated: a push while an expectation is pending is ignored and the pending
  one stays. \<^verbatim>\<open>expect_change\<close> is a plain assignment: the second push replaces the
  first, and the transition that follows carries the command id and the source of
  the second.
\<close>

theorem second_push_replaces_counterexample:
  "expected_state_change
     (expect_change (expect_change (StateManager_init False) connect_print_change)
        serial_print_change) \<noteq> Some connect_print_change \<and>
   map snd (snd (printing
     (expect_change (expect_change (StateManager_init False) connect_print_change)
        serial_print_change))) =
   [pre_state_change_signal (Some 7),
    state_changed_signal READY PRINTING (Some 7) (Some SERIAL),
    post_state_change_signal]"
  by (simp add: printing_def printing_body_def run_defs connect_print_change_def
      serial_print_change_def StateChange_init_def)

text \<open>
  C2, amended: while an expectation is pending, the decorator of a state changing
  method does not push the method's default; the detect-and-notify cycle runs on
  the body's result with the pending expectation still in place, so that one is
  used for attribution. A direct push through \<^verbatim>\<open>expect_change\<close> never fails and
  replaces what is pending.
\<close>

theorem pending_expectation_kept_by_wrapper:
  assumes "(dflt, func) \<in> set influencers" and "expected_state_change s = Some d"
  shows "state_influencer (Some dflt) func s = state_may_have_changed (func s) \<and>
         expected_state_change (func s) = Some d \<and>
         expected_state_change (expect_change s d') = Some d'"
proof -
  from assms(1) have "layer_body func" by (rule layer_body_influencers)
  with assms(2) have "expected_state_change (func s) = Some d"
    by (simp add: layer_body_def)
  moreover from assms(2)
  have "state_influencer (Some dflt) func s = state_may_have_changed (func s)"
    by (simp add: state_influencer_def)
  ultimately show ?thesis by (simp add: expect_change_def)
qed

theorem pending_expectation_kept_by_wrapper_witness:
  "(printing_change, printing_body) \<in> set influencers \<and>
   expected_state_change (expect_change (StateManager_init False) connect_print_change) =
     Some connect_print_change \<and>
   printing (expect_change (StateManager_init False) connect_print_change) =
     state_may_have_changed
       (printing_body (expect_change (StateManager_init False) connect_print_change)) \<and>
   map snd (snd (printing (expect_change (StateManager_init False) connect_print_change))) =
     [pre_state_change_signal (Some 42),
      state_changed_signal READY PRINTING (Some 42) (Some CONNECT),
      post_state_change_signal]"
proof -
  have i: "(printing_change, printing_body) \<in> set influencers"
    by (simp add: influencers_def)
  have p: "expected_state_change (expect_change (StateManager_init False) connect_print_change) =
     Some connect_print_change"
    by (simp add: expect_change_def)
  have "map snd (snd (state_may_have_changed
       (printing_body (expect_change (StateManager_init False) connect_print_change)))) =
     [pre_state_change_signal (Some 42),
      state_changed_signal READY PRINTING (Some 42) (Some CONNECT),
      post_state_change_signal]"
    by (simp add: printing_body_def run_defs connect_print_change_def StateChange_init_def)
  then show ?thesis
    using i p pending_expectation_kept_by_wrapper [OF i p]
    by (simp add: printing_def)
qed

section \<open>Idempotence\<close>

text \<open>
  C9: every state changing method is idempotent. Called again on the manager its
  first call leaves, it returns that very manager (the three layers, \<^verbatim>\<open>last_state\<close>
  and \<^verbatim>\<open>current_state\<close> included) and sends no signal.
\<close>

theorem method_twice:
  assumes "m \<in> set state_changing_methods"
  shows "m (fst (m s)) = (fst (m s), [])"
proof -
  from assms obtain d func where df: "(d, func) \<in> set influencers"
    and m: "m = state_influencer (Some d) func"
    unfolding state_changing_methods_influencers by auto
  have lb: "layer_body func" using df by (rule layer_body_influencers)
  have hi: "history_independent func" using df by (rule history_independent_influencers)
  have idem: "\<forall>t. func (func t) = func t"
    using idempotent_influencers [OF df] by simp
  show ?thesis
    unfolding m using lb hi idem by (rule influencer_twice)
qed

theorem method_twice_witness:
  "busy \<in> set state_changing_methods \<and>
   snd (busy (StateManager_init False)) \<noteq> [] \<and>
   busy (fst (busy (StateManager_init False))) = (fst (busy (StateManager_init False)), [])"
proof -
  have b: "busy \<in> set state_changing_methods"
    by (simp add: state_changing_methods_def)
  have "snd (busy (StateManager_init False)) \<noteq> []"
    by (simp add: busy_def busy_body_def run_defs)
  with b method_twice [OF b, of "StateManager_init False"] show ?thesis by simp
qed

section \<open>Attribution\<close>

text \<open>
  C3: with an expectation pending, let \<open>source_from\<close> be the value of
  \<^verbatim>\<open>from_states\<close> at \<^verbatim>\<open>last_state\<close> and \<open>source_to\<close> the value of \<^verbatim>\<open>to_states\<close>
  at \<^verbatim>\<open>current_state\<close> (\<^verbatim>\<open>None\<close> when the key is absent). If both are set and
  differ the source is \<open>source_from\<close> (as it is when they agree); if one is set it
  is that one; if neither is set it is the default source of the expectation, which
  may itself be \<^verbatim>\<open>None\<close>.
\<close>

theorem get_expected_source_order:
  assumes "expected_state_change s = Some d"
    and "source_from = (case from_states d (last_state s) of Some v \<Rightarrow> v | None \<Rightarrow> None)"
    and "source_to = (case to_states d (current_state s) of Some v \<Rightarrow> v | None \<Rightarrow> None)"
  shows "(source_from \<noteq> None \<and> source_to \<noteq> None \<and> source_from \<noteq> source_to \<longrightarrow>
            get_expected_source s = source_from) \<and>
         (source_from \<noteq> None \<and> source_to = source_from \<longrightarrow>
            get_expected_source s = source_from) \<and>
         (source_from \<noteq> None \<and> source_to = None \<longrightarrow> get_expected_source s = source_from) \<and>
         (source_from = None \<and> source_to \<noteq> None \<longrightarrow> get_expected_source s = source_to) \<and>
         (source_from = None \<and> source_to = None \<longrightarrow>
            get_expected_source s = default_source d)"
  using assms
  by (auto simp: get_expected_source_def Let_def dom_def split: option.splits)

theorem get_expected_source_order_witness:
  "get_expected_source (pending BUSY READY ok_change) = Some HW \<and>
   get_expected_source (pending ATTENTION PRINTING ok_change) = Some USER \<and>
   get_expected_source (pending PRINTING READY ok_change) = Some MARLIN \<and>
   get_expected_source (pending READY BUSY wui_default_change) = Some WUI \<and>
   get_expected_source (pending READY BUSY printing_change) = None"
proof -
  have ok_from: "from_states ok_change BUSY = Some (Some HW)"
    "from_states ok_change ATTENTION = Some (Some USER)"
    "from_states ok_change PRINTING = None"
    and ok_to: "to_states ok_change READY = Some (Some MARLIN)"
    "to_states ok_change PRINTING = None"
    by (simp_all add: ok_change_def StateChange_init_def)
  have wui: "from_states wui_default_change READY = None"
    "to_states wui_default_change BUSY = None"
    "default_source wui_default_change = Some WUI"
    by (simp_all add: wui_default_change_def StateChange_init_def)
  have pr: "from_states printing_change READY = None"
    "to_states printing_change BUSY = None"
    "default_source printing_change = None"
    by (simp_all add: printing_change_def StateChange_init_def)
  have "get_expected_source (pending BUSY READY ok_change) = Some HW"
    using get_expected_source_order [OF pending_fields(1),
        of "Some HW" ok_change BUSY READY "Some MARLIN"]
    by (simp add: pending_fields ok_from ok_to)
  moreover have "get_expected_source (pending ATTENTION PRINTING ok_change) = Some USER"
    using get_expected_source_order [OF pending_fields(1),
        of "Some USER" ok_change ATTENTION PRINTING None]
    by (simp add: pending_fields ok_from ok_to)
  moreover have "get_expected_source (pending PRINTING READY ok_change) = Some MARLIN"
    using get_expected_source_order [OF pending_fields(1),
        of None ok_change PRINTING READY "Some MARLIN"]
    by (simp add: pending_fields ok_from ok_to)
  moreover have "get_expected_source (pending READY BUSY wui_default_change) = Some WUI"
    using get_expected_source_order [OF pending_fields(1),
        of None wui_default_change READY BUSY None]
    by (simp add: pending_fields wui)
  moreover have "get_expected_source (pending READY BUSY printing_change) = None"
    using get_expected_source_order [OF pending_fields(1),
        of None printing_change READY BUSY None]
    by (simp add: pending_fields pr)
  ultimately show ?thesis by simp
qed

text \<open>
  C8: when a change is detected, the transition counts as expected exactly when an
  expectation is pending and the new state is a key of its \<^verbatim>\<open>to_states\<close>, or the
  old state is a key of its \<^verbatim>\<open>from_states\<close>, or it has a default source. The
  command id of the expectation is sent with the signals in that case only, and
  with no expectation pending the command id and the source are both \<^verbatim>\<open>None\<close>.
\<close>

theorem expected_classification:
  assumes "get_state s \<noteq> current_state s"
    and "t = s\<lparr>last_state := current_state s, current_state := get_state s\<rparr>"
    and "cid = (case expected_state_change s of
                  Some d \<Rightarrow> if is_expected t then command_id d else None
                | None \<Rightarrow> None)"
    and "source = (if is_expected t then get_expected_source t else None)"
  shows "(is_expected t \<longleftrightarrow>
            (\<exists>d. expected_state_change s = Some d \<and>
                 (current_state t \<in> dom (to_states d) \<or> last_state t \<in> dom (from_states d) \<or>
                  default_source d \<noteq> None))) \<and>
         map snd (snd (state_may_have_changed s)) =
           [pre_state_change_signal cid,
            state_changed_signal (current_state s) (get_state s) cid source,
            post_state_change_signal] \<and>
         (expected_state_change s = None \<longrightarrow> cid = None \<and> source = None)"
proof -
  have e: "expected_state_change t = expected_state_change s"
    and l: "last_state t = current_state s" and c: "current_state t = get_state s"
    by (simp_all add: assms(2))
  have 1: "is_expected t \<longleftrightarrow>
            (\<exists>d. expected_state_change s = Some d \<and>
                 (current_state t \<in> dom (to_states d) \<or> last_state t \<in> dom (from_states d) \<or>
                  default_source d \<noteq> None))"
    by (simp add: is_expected_def e split: option.splits)
  have 2: "map snd (snd (state_may_have_changed s)) =
           [pre_state_change_signal cid,
            state_changed_signal (current_state s) (get_state s) cid source,
            post_state_change_signal]"
    using assms(1)
    by (simp add: state_may_have_changed_def Let_def get_state_history
        assms(2) [symmetric] assms(3,4) e split: option.splits)
  have 3: "expected_state_change s = None \<longrightarrow> cid = None \<and> source = None"
    by (simp add: assms(3,4) is_expected_def e)
  from 1 2 3 show ?thesis by blast
qed

theorem expected_classification_witness:
  "map snd (snd (state_may_have_changed
      ((StateManager_init False)\<lparr>printing_state := Some PRINTING,
         expected_state_change := Some connect_print_change\<rparr>))) =
     [pre_state_change_signal (Some 42),
      state_changed_signal READY PRINTING (Some 42) (Some CONNECT),
      post_state_change_signal] \<and>
   map snd (snd (state_may_have_changed
      ((StateManager_init False)\<lparr>base_state := BUSY,
         expected_state_change := Some connect_print_change\<rparr>))) =
     [pre_state_change_signal None,
      state_changed_signal READY BUSY None None,
      post_state_change_signal] \<and>
   map snd (snd (state_may_have_changed ((StateManager_init False)\<lparr>base_state := BUSY\<rparr>))) =
     [pre_state_change_signal None,
      state_changed_signal READY BUSY None None,
      post_state_change_signal]"
proof -
  let ?a = "(StateManager_init False)\<lparr>printing_state := Some PRINTING,
         expected_state_change := Some connect_print_change\<rparr>"
  let ?b = "(StateManager_init False)\<lparr>base_state := BUSY,
         expected_state_change := Some connect_print_change\<rparr>"
  let ?c = "(StateManager_init False)\<lparr>base_state := BUSY\<rparr>"
  have a: "get_state ?a \<noteq> current_state ?a" and b: "get_state ?b \<noteq> current_state ?b"
    and c: "get_state ?c \<noteq> current_state ?c"
    by (simp_all add: get_state_def StateManager_init_def)
  have "map snd (snd (state_may_have_changed ?a)) =
     [pre_state_change_signal (Some 42),
      state_changed_signal READY PRINTING (Some 42) (Some CONNECT),
      post_state_change_signal]"
    using expected_classification [OF a refl refl refl]
    by (simp add: run_defs connect_print_change_def StateChange_init_def)
  moreover have "map snd (snd (state_may_have_changed ?b)) =
     [pre_state_change_signal None,
      state_changed_signal READY BUSY None None,
      post_state_change_signal]"
    using expected_classification [OF b refl refl refl]
    by (simp add: run_defs connect_print_change_def StateChange_init_def)
  moreover have "map snd (snd (state_may_have_changed ?c)) =
     [pre_state_change_signal None,
      state_changed_signal READY BUSY None None,
      post_state_change_signal]"
    using expected_classification [OF c refl refl refl]
    by (simp add: run_defs)
  ultimately show ?thesis by simp
qed

text \<open>
  C10: an expected transition need not have a source. When the pending expectation
  has no default source and maps the matching state to \<^verbatim>\<open>None\<close>, the transition is
  expected and the signals carry the command id of the expectation, but the
  source sent is \<^verbatim>\<open>None\<close>.
\<close>

theorem expected_without_source:
  assumes "expected_state_change s = Some d"
    and "get_state s \<noteq> current_state s"
    and "default_source d = None"
    and "to_states d (get_state s) = Some None \<or> from_states d (current_state s) = Some None"
    and "to_states d (get_state s) \<in> {None, Some None}"
    and "from_states d (current_state s) \<in> {None, Some None}"
  shows "is_expected (s\<lparr>last_state := current_state s, current_state := get_state s\<rparr>) \<and>
         map snd (snd (state_may_have_changed s)) =
           [pre_state_change_signal (command_id d),
            state_changed_signal (current_state s) (get_state s) (command_id d) None,
            post_state_change_signal]"
proof -
  let ?t = "s\<lparr>last_state := current_state s, current_state := get_state s\<rparr>"
  have e: "is_expected ?t"
    using assms(1,4) by (auto simp: is_expected_def dom_def)
  have g: "get_expected_source ?t = None"
    using assms(1,3,5,6) by (auto simp: get_expected_source_def Let_def dom_def)
  show ?thesis
    using e g assms(1,2)
    by (simp add: state_may_have_changed_def Let_def get_state_history)
qed

theorem expected_without_source_witness:
  "is_expected
     ((StateManager_init False)\<lparr>base_state := BUSY,
        expected_state_change := Some silent_change,
        last_state := READY, current_state := BUSY\<rparr>) \<and>
   map snd (snd (state_may_have_changed
      ((StateManager_init False)\<lparr>base_state := BUSY,
         expected_state_change := Some silent_change\<rparr>))) =
     [pre_state_change_signal (Some 42),
      state_changed_signal READY BUSY (Some 42) None,
      post_state_change_signal]"
proof -
  let ?s = "(StateManager_init False)\<lparr>base_state := BUSY,
         expected_state_change := Some silent_change\<rparr>"
  have 1: "expected_state_change ?s = Some silent_change" by simp
  have 2: "get_state ?s \<noteq> current_state ?s"
    by (simp add: get_state_def StateManager_init_def)
  have g: "get_state ?s = BUSY" "current_state ?s = READY"
    by (simp_all add: get_state_def StateManager_init_def)
  have 3: "default_source silent_change = None"
    and t: "to_states silent_change BUSY = Some None"
    and f: "from_states silent_change READY = None"
    and cid: "command_id silent_change = Some 42"
    by (simp_all add: silent_change_def StateChange_init_def)
  have 4: "to_states silent_change (get_state ?s) = Some None \<or>
           from_states silent_change (current_state ?s) = Some None"
    and 5: "to_states silent_change (get_state ?s) \<in> {None, Some None}"
    and 6: "from_states silent_change (current_state ?s) \<in> {None, Some None}"
    by (simp_all add: g t f)
  show ?thesis
    using expected_without_source [OF 1 2 3 4 5 6] unfolding g cid by simp
qed

section \<open>The detect-and-notify cycle\<close>

text \<open>
  C5, as stated: the expectation is cleared only after the three signals are sent.
  In the code the assignment \<^verbatim>\<open>self.expected_state_change = None\<close> comes before the
  three \<^verbatim>\<open>send\<close> calls: the manager every subscriber receives has no expectation
  pending any more, although one was pending and its command id is in the signals.
\<close>

theorem ledger_cleared_before_publishing_counterexample:
  "expected_state_change printing_announced = Some connect_print_change \<and>
   map (expected_state_change \<circ> fst) (snd (state_may_have_changed printing_announced)) =
     [None, None, None] \<and>
   map snd (snd (state_may_have_changed printing_announced)) =
     [pre_state_change_signal (Some 42),
      state_changed_signal READY PRINTING (Some 42) (Some CONNECT),
      post_state_change_signal]"
  by (simp add: printing_announced_def run_defs connect_print_change_def StateChange_init_def)

text \<open>
  C5, amended: when the recomputed state differs from \<^verbatim>\<open>current_state\<close>, the cycle
  shifts \<^verbatim>\<open>last_state\<close> to the old \<^verbatim>\<open>current_state\<close>, sets \<^verbatim>\<open>current_state\<close> to the
  new state, runs attribution on that manager, clears the expectation, and then
  sends pre-change with the command id, changed with old state, new state, command
  id and source, and post-change, in this order, each from the manager whose
  expectation is cleared already. When the recomputed state is equal, it sends
  nothing and changes nothing.
\<close>

theorem detect_and_notify:
  assumes "t = s\<lparr>last_state := current_state s, current_state := get_state s\<rparr>"
    and "cid = (if is_expected t
                then (case expected_state_change t of Some d \<Rightarrow> command_id d | None \<Rightarrow> None)
                else None)"
    and "source = (if is_expected t then get_expected_source t else None)"
    and "u = t\<lparr>expected_state_change := None\<rparr>"
  shows "(get_state s \<noteq> current_state s \<longrightarrow>
            state_may_have_changed s =
              (u, [(u, pre_state_change_signal cid),
                   (u, state_changed_signal (current_state s) (get_state s) cid source),
                   (u, post_state_change_signal)])) \<and>
         (get_state s = current_state s \<longrightarrow> state_may_have_changed s = (s, []))"
  unfolding assms
  by (simp add: state_may_have_changed_def Let_def get_state_history split: option.splits)

theorem detect_and_notify_witness:
  "snd (state_may_have_changed printing_announced) =
     [(printing_announced\<lparr>last_state := READY, current_state := PRINTING,
         expected_state_change := None\<rparr>, pre_state_change_signal (Some 42)),
      (printing_announced\<lparr>last_state := READY, current_state := PRINTING,
         expected_state_change := None\<rparr>,
       state_changed_signal READY PRINTING (Some 42) (Some CONNECT)),
      (printing_announced\<lparr>last_state := READY, current_state := PRINTING,
         expected_state_change := None\<rparr>, post_state_change_signal)] \<and>
   state_may_have_changed (StateManager_init False) = (StateManager_init False, [])"
proof -
  have a: "get_state printing_announced = PRINTING" "current_state printing_announced = READY"
    by (simp_all add: printing_announced_def get_state_def StateManager_init_def)
  have e: "is_expected (printing_announced\<lparr>last_state := READY, current_state := PRINTING\<rparr>)"
    and g: "get_expected_source
       (printing_announced\<lparr>last_state := READY, current_state := PRINTING\<rparr>) = Some CONNECT"
    and x: "expected_state_change printing_announced = Some connect_print_change"
    and c: "command_id connect_print_change = Some 42"
    by (simp_all add: printing_announced_def is_expected_def get_expected_source_def
        connect_print_change_def StateChange_init_def)
  have i: "get_state (StateManager_init False) = current_state (StateManager_init False)"
    by (simp add: get_state_def StateManager_init_def)
  show ?thesis
    using detect_and_notify [OF refl refl refl refl, of printing_announced]
      detect_and_notify [OF refl refl refl refl, of "StateManager_init False"]
    by (simp add: a e g x c i)
qed

section \<open>Telemetry while paused\<close>

text \<open>
  C6: while the activity layer is PAUSED, \<^verbatim>\<open>sd_printing_handler\<close> calls
  \<^verbatim>\<open>printing()\<close>, never \<^verbatim>\<open>not_printing()\<close>, whatever the line says: the activity
  layer stays PAUSED, the other layers and the reportable state are unchanged, so
  a reportable state that was PAUSED remains PAUSED, as it is whenever no override
  is set. \<^verbatim>\<open>not_printing()\<close> would have cleared the activity layer.
\<close>

theorem paused_is_sticky:
  assumes "printing_state s = Some PAUSED"
  shows "sd_printing_handler group0 s = printing s \<and>
         printing_state (fst (sd_printing_handler group0 s)) = Some PAUSED \<and>
         base_state (fst (sd_printing_handler group0 s)) = base_state s \<and>
         override_state (fst (sd_printing_handler group0 s)) = override_state s \<and>
         get_state (fst (sd_printing_handler group0 s)) = get_state s \<and>
         (get_state s = PAUSED \<longrightarrow> get_state (fst (sd_printing_handler group0 s)) = PAUSED) \<and>
         (override_state s = None \<longrightarrow>
            get_state (fst (sd_printing_handler group0 s)) = PAUSED) \<and>
         printing_state (fst (not_printing s)) = None"
proof -
  have i: "(printing_change, printing_body) \<in> set influencers"
    and j: "(not_printing_change, not_printing_body) \<in> set influencers"
    by (simp_all add: influencers_def)
  note lb = layer_body_influencers [OF i] and hi = history_independent_influencers [OF i]
  note lb' = layer_body_influencers [OF j] and hi' = history_independent_influencers [OF j]
  have h: "sd_printing_handler group0 s = printing s"
    using assms by (simp add: sd_printing_handler_def)
  have b: "printing_body s = s"
    using assms by (simp add: printing_body_def)
  have l: "base_state (fst (printing s)) = base_state s"
    "printing_state (fst (printing s)) = printing_state s"
    "override_state (fst (printing s)) = override_state s"
    unfolding printing_def using influencer_layers [OF lb hi, of printing_change s]
    by (simp_all add: b)
  have g: "get_state (fst (printing s)) = get_state s"
    using l by (rule get_state_layers)
  have n: "printing_state (fst (not_printing s)) = None"
    unfolding not_printing_def
    using influencer_layers(2) [OF lb' hi', of not_printing_change s] assms
    by (simp add: not_printing_body_def)
  have o: "override_state s = None \<longrightarrow> get_state s = PAUSED"
    using assms by (simp add: get_state_def)
  show ?thesis
    using h l g n o assms by simp
qed

theorem paused_is_sticky_witness:
  "printing_state paused_manager = Some PAUSED \<and>
   \<not> file_printer_printing paused_manager \<and>
   get_state paused_manager = PAUSED \<and>
   printing_state (fst (sd_printing_handler (Some ''Not SD printing'') paused_manager)) =
     Some PAUSED \<and>
   get_state (fst (sd_printing_handler (Some ''Not SD printing'') paused_manager)) = PAUSED"
proof -
  have p: "printing_state paused_manager = Some PAUSED"
    and f: "\<not> file_printer_printing paused_manager"
    and g: "get_state paused_manager = PAUSED"
    by (simp_all add: paused_manager_def printing_def paused_def printing_body_def
        paused_body_def run_defs)
  note r = paused_is_sticky [OF p, of "Some ''Not SD printing''"]
  from r have a:
    "printing_state (fst (sd_printing_handler (Some ''Not SD printing'') paused_manager)) =
       Some PAUSED"
    by blast
  from r g have b:
    "get_state (fst (sd_printing_handler (Some ''Not SD printing'') paused_manager)) = PAUSED"
    by blast
  from p f g a b show ?thesis by blast
qed

section \<open>The reportable state\<close>

text \<open>
  C4: the state \<^verbatim>\<open>get_state\<close> returns is the override layer when it is set, else
  the activity layer when it is set, else the base layer, for every manager.
\<close>

theorem get_state_reduction:
  "get_state s =
     (case override_state s of
        Some ov \<Rightarrow> ov
      | None \<Rightarrow> (case printing_state s of Some act \<Rightarrow> act | None \<Rightarrow> base_state s))"
  by (simp add: get_state_def split: option.splits)

theorem get_state_reduction_witness:
  "get_state (StateManager_init False) = READY \<and>
   get_state ((StateManager_init False)\<lparr>printing_state := Some PAUSED\<rparr>) = PAUSED \<and>
   get_state ((StateManager_init False)\<lparr>printing_state := Some PAUSED,
      override_state := Some ATTENTION\<rparr>) = ATTENTION"
  using get_state_reduction [of "StateManager_init False"]
    get_state_reduction [of "(StateManager_init False)\<lparr>printing_state := Some PAUSED\<rparr>"]
    get_state_reduction [of "(StateManager_init False)\<lparr>printing_state := Some PAUSED,
      override_state := Some ATTENTION\<rparr>"]
  by (simp add: StateManager_init_def Let_def)

section \<open>Scenarios\<close>

text \<open>
  C7: from the initial manager, \<^verbatim>\<open>busy()\<close> makes the reportable state BUSY and
  sends the change READY to BUSY with source MARLIN and no command id; \<^verbatim>\<open>ok()\<close>
  after it makes the reportable state READY again and sends the change BUSY to READY
  with source HW, the source of the origin state, not MARLIN, the source of the target.
\<close>

theorem scenario_busy_then_ok:
  "get_state (fst (busy (StateManager_init fp))) = BUSY \<and>
   map snd (snd (busy (StateManager_init fp))) =
     [pre_state_change_signal None,
      state_changed_signal READY BUSY None (Some MARLIN),
      post_state_change_signal] \<and>
   get_state (fst (ok (fst (busy (StateManager_init fp))))) = READY \<and>
   map snd (snd (ok (fst (busy (StateManager_init fp))))) =
     [pre_state_change_signal None,
      state_changed_signal BUSY READY None (Some HW),
      post_state_change_signal]"
  by (simp add: busy_def ok_def busy_body_def ok_body_def busy_change_def ok_change_def
      StateChange_init_def run_defs)

end
